theory Spec2Isabelle
  imports Complex_Main
begin

section \<open>Domain model (types/index.ts)\<close>

datatype MessageType = TEXT | IMAGE | AUDIO | VIDEO | DOCUMENT | STICKER | LOCATION | CONTACT

datatype Platform = TELEGRAM | WHATSAPP | DISCORD | FACEBOOK | WEB

datatype UserRole = USER | MODERATOR | ADMIN | SUPER_ADMIN

record TelegramConfig =
  enabled :: bool
  botToken :: "string option"
  webhookUrl :: "string option"
  allowedUsers :: "string list option"

record UserPreferences =
  language :: string
  timezone :: string
  notifications :: bool
  aiEnabled :: bool
  voiceEnabled :: bool

record User =
  u_id :: string
  u_platformId :: string
  u_platform :: Platform
  u_username :: "string option"
  u_firstName :: "string option"
  u_lastName :: "string option"
  u_role :: UserRole
  u_isBlocked :: bool
  u_preferences :: UserPreferences
  u_createdAt :: int
  u_updatedAt :: int
  u_lastSeen :: int

record Attachment =
  a_id :: string
  a_type :: MessageType
  a_url :: string
  a_filename :: "string option"
  a_mimeType :: "string option"
  a_size :: "int option"

text \<open>
  The metadata bag of a Message is a free-form object in the source; the adapter only ever
  writes the keys below, so the bag is a record of optional entries.
\<close>

record Metadata =
  md_chatId :: "int option"
  md_chatType :: "string option"
  md_messageId :: "int option"
  md_latitude :: "real option"
  md_longitude :: "real option"
  md_phoneNumber :: "string option"
  md_firstName :: "string option"
  md_lastName :: "string option"
  md_userId :: "int option"

record Message =
  m_id :: string
  m_userId :: string
  m_platform :: Platform
  m_type :: MessageType
  m_content :: string
  m_metadata :: Metadata
  m_attachments :: "Attachment list"
  m_isFromBot :: bool
  m_createdAt :: int
  m_processed :: bool

text \<open>
  Errors as values. \<open>PlatformError\<close> is the class of types/index.ts; \<open>TypeError\<close> is the
  runtime's error for a property read on \<open>undefined\<close>; \<open>Error\<close> is a plain
  \<open>new Error(msg)\<close>; \<open>NativeError\<close> is whatever the Telegraf client threw.
\<close>

datatype error =
    PlatformError string Platform
  | TypeError string
  | Error string
  | NativeError string

section \<open>The native client's update objects (Telegraf context)\<close>

record PhotoSize =
  ps_file_id :: string
  ps_width :: nat
  ps_height :: nat
  ps_file_size :: "int option"

record Voice =
  vo_file_id :: string
  vo_mime_type :: "string option"
  vo_file_size :: "int option"

record Document =
  do_file_id :: string
  do_file_name :: "string option"
  do_mime_type :: "string option"
  do_file_size :: "int option"

record Sticker =
  st_file_id :: string
  st_emoji :: "string option"

record Location =
  lo_latitude :: real
  lo_longitude :: real

record Contact =
  co_phone_number :: string
  co_first_name :: string
  co_last_name :: "string option"
  co_user_id :: "int option"

text \<open>
  A field of the native message is \<open>Some v\<close> when the key is present
  (\<open>'text' in ctx.message\<close>) and \<open>None\<close> when it is not.
\<close>

record TgMessage =
  tm_message_id :: int
  tm_text :: "string option"
  tm_photo :: "PhotoSize list option"
  tm_caption :: "string option"
  tm_voice :: "Voice option"
  tm_document :: "Document option"
  tm_sticker :: "Sticker option"
  tm_location :: "Location option"
  tm_contact :: "Contact option"

record TgUser =
  tu_id :: int
  tu_username :: "string option"
  tu_first_name :: string
  tu_last_name :: "string option"
  tu_language_code :: "string option"

record TgChat =
  tc_id :: int
  tc_type :: string

record Context =
  ctx_message :: "TgMessage option"
  ctx_from :: "TgUser option"
  ctx_chat :: "TgChat option"

section \<open>The environment: what the collaborators answer\<close>

text \<open>
  A call into the Telegraf client either returns or throws. The adapter's code is
  deterministic given these answers, so they are parameters of every operation:
  the clock; the rendering of a fractional number; \<open>new Telegraf(token)\<close>; the
  \<open>bot.on\<close> and \<open>bot.catch\<close> registrations of \<open>setupEventHandlers\<close>; \<open>bot.launch\<close>
  with the webhook domain, if any; \<open>bot.stop\<close>; \<open>telegram.setMyCommands\<close>;
  \<open>telegram.getFile\<close>, which returns the file's path when the platform gives one;
  the three send calls; \<open>ctx.reply\<close>; and the subscribers that \<open>emit\<close> runs.
\<close>

datatype 'a outcome = Throws string | Returns 'a

record Env =
  clock :: int
  numberToString :: "real \<Rightarrow> string"
  newTelegraf :: "string \<Rightarrow> unit outcome"
  registerHandlers :: "unit outcome"
  launch :: "string option \<Rightarrow> unit outcome"
  botStop :: "unit outcome"
  setMyCommands :: "unit outcome"
  getFile :: "string \<Rightarrow> string option outcome"
  tgSendMessage :: "string \<Rightarrow> string \<Rightarrow> (string \<times> string) list \<Rightarrow> unit outcome"
  tgSendPhoto :: "string \<Rightarrow> string \<Rightarrow> string option \<Rightarrow> unit outcome"
  tgSendChatAction :: "string \<Rightarrow> string \<Rightarrow> unit outcome"
  ctxReply :: "Context \<Rightarrow> string \<Rightarrow> unit outcome"
  listeners :: "unit outcome"

section \<open>Adapter state and observable effects\<close>

datatype Telegraf = Telegraf string

record Adapter =
  bot :: "Telegraf option"
  config :: TelegramConfig
  isRunning :: bool

datatype event =
    MessageEvent Message User Platform
  | UserJoinEvent User
  | UserLeaveEvent User
  | ErrorEvent string

datatype effect =
    LogError string
  | Emit event
  | Reply "int option" string
  | CallLaunch "string option"
  | CallStop
  | CallSetMyCommands
  | CallGetFile string
  | CallSendMessage string string "(string \<times> string) list"
  | CallSendPhoto string string "string option"
  | CallSendChatAction string string

definition constructor :: "TelegramConfig \<Rightarrow> Adapter" where
  "constructor cfg = \<lparr>bot = None, config = cfg, isRunning = False\<rparr>"

section \<open>The logger the adapter imports (utils/logger.ts)\<close>

text \<open>
  The adapter imports \<open>logger\<close>. utils/logger.ts exports under that name the winston
  instance itself (\<open>export const logger = Logger.getInstance()\<close>); the helpers
  \<open>platform\<close> and \<open>security\<close> are members of the module's other export, \<open>log\<close>, and the
  instance has no such members. So \<open>logger.error(...)\<close> logs (the effect \<open>LogError\<close>), while
  \<open>logger.platform(...)\<close> and \<open>logger.security(...)\<close> call an undefined member and throw
  a TypeError. A logger call returns the effects it has, or the error it throws.
\<close>

definition logger_platform :: "string \<Rightarrow> string \<Rightarrow> error + effect list" where
  "logger_platform platform message = Inl (TypeError ''logger.platform is not a function'')"

definition logger_security :: "string \<Rightarrow> error + effect list" where
  "logger_security event = Inl (TypeError ''logger.security is not a function'')"

section \<open>String helpers of the runtime\<close>

text \<open>
  Rendering of an integral number, as \<open>Number.prototype.toString\<close> and a template literal
  give it: plain decimal digits below \<open>10^21\<close> in magnitude, and the runtime's exponent
  form from there on, which is the environment's to give.
\<close>

fun nat_toString :: "nat \<Rightarrow> string" where
  "nat_toString n =
     (if n < 10 then [''0123456789'' ! n]
      else nat_toString (n div 10) @ [''0123456789'' ! (n mod 10)])"

declare nat_toString.simps [simp del]

definition int_toString :: "Env \<Rightarrow> int \<Rightarrow> string" where
  "int_toString env i =
     (if \<bar>i\<bar> < 10 ^ 21 then
        (if i < 0 then CHR ''-'' # nat_toString (nat (- i)) else nat_toString (nat i))
      else numberToString env (real_of_int i))"

text \<open>\<open>s || d\<close> on an optional string: \<open>undefined\<close> and the empty string are both falsy.\<close>

definition or_else :: "string option \<Rightarrow> string \<Rightarrow> string" where
  "or_else s d = (case s of None \<Rightarrow> d | Some v \<Rightarrow> if v = [] then d else v)"

text \<open>An optional string inside a template literal.\<close>

definition interpolate :: "string option \<Rightarrow> string" where
  "interpolate s = (case s of None \<Rightarrow> ''undefined'' | Some v \<Rightarrow> v)"

section \<open>TelegramPlatform: inbound normalisation\<close>

text \<open>\<open>getFileUrl\<close>: never throws; every failure is logged and becomes the empty string.\<close>

definition getFileUrl :: "Env \<Rightarrow> Adapter \<Rightarrow> string \<Rightarrow> string \<times> effect list" where
  "getFileUrl env s fileId =
     (case bot s of
        None \<Rightarrow> ('''', [LogError ''Failed to get file URL''])
      | Some b \<Rightarrow>
          (case getFile env fileId of
             Throws e \<Rightarrow> ('''', [CallGetFile fileId, LogError ''Failed to get file URL''])
           | Returns file_path \<Rightarrow>
               (''https://api.telegram.org/file/bot'' @ interpolate (botToken (config s)) @ ''/''
                  @ interpolate file_path,
                [CallGetFile fileId])))"

text \<open>
  The base record of \<open>parseMessage\<close>. The source's object has no \<open>type\<close> key yet; every
  branch spreads the base and sets the type, so the value put here is always overwritten.
  \<open>Date.now()\<close> and \<open>new Date()\<close> read the same clock.
\<close>

definition baseMessage :: "Env \<Rightarrow> Context \<Rightarrow> Message" where
  "baseMessage env ctx =
     \<lparr>m_id = ''tg_'' @ int_toString env
               (case ctx_message ctx of
                  None \<Rightarrow> clock env
                | Some m \<Rightarrow> if tm_message_id m = 0 then clock env else tm_message_id m),
      m_userId = (case ctx_from ctx of None \<Rightarrow> '''' | Some u \<Rightarrow> int_toString env (tu_id u)),
      m_platform = TELEGRAM,
      m_type = TEXT,
      m_content = '''',
      m_metadata =
        \<lparr>md_chatId = map_option tc_id (ctx_chat ctx),
         md_chatType = map_option tc_type (ctx_chat ctx),
         md_messageId = map_option tm_message_id (ctx_message ctx),
         md_latitude = None, md_longitude = None, md_phoneNumber = None,
         md_firstName = None, md_lastName = None, md_userId = None\<rparr>,
      m_attachments = [],
      m_isFromBot = False,
      m_createdAt = clock env,
      m_processed = False\<rparr>"

text \<open>
  \<open>ctx.message && 'k' in ctx.message\<close>: the payload under key \<open>k\<close>, when the update
  has a message and the message has the key.
\<close>

definition payload :: "(TgMessage \<Rightarrow> 'a option) \<Rightarrow> Context \<Rightarrow> 'a option" where
  "payload k ctx = (case ctx_message ctx of None \<Rightarrow> None | Some m \<Rightarrow> k m)"

text \<open>
  \<open>parseMessage\<close>: the dispatch on the payload key, in the source's order. The photo branch
  reads \<open>photo[photo.length - 1]\<close>, which is \<open>undefined\<close> on an empty array, and the
  following \<open>photo.file_id\<close> then throws a TypeError.
\<close>

definition parseMessage :: "Env \<Rightarrow> Adapter \<Rightarrow> Context \<Rightarrow> (error + Message) \<times> effect list" where
  "parseMessage env s ctx =
     (let base = baseMessage env ctx in
      case payload tm_text ctx of
        Some t \<Rightarrow> (Inr (base\<lparr>m_type := TEXT, m_content := t\<rparr>), [])
      | None \<Rightarrow>
      (case payload tm_photo ctx of
        Some photos \<Rightarrow>
          if photos = [] then (Inl (TypeError ''Cannot read properties of undefined''), [])
          else
            let photo = photos ! (length photos - 1);
                (fileUrl, fx) = getFileUrl env s (ps_file_id photo)
            in (Inr (base\<lparr>m_type := IMAGE,
                       m_content := or_else (payload tm_caption ctx) '''',
                       m_attachments :=
                         [\<lparr>a_id = ps_file_id photo, a_type = IMAGE, a_url = fileUrl,
                           a_filename = None, a_mimeType = None,
                           a_size = ps_file_size photo\<rparr>]\<rparr>), fx)
      | None \<Rightarrow>
      (case payload tm_voice ctx of
        Some voice \<Rightarrow>
          let (fileUrl, fx) = getFileUrl env s (vo_file_id voice)
          in (Inr (base\<lparr>m_type := AUDIO, m_content := '''',
                     m_attachments :=
                       [\<lparr>a_id = vo_file_id voice, a_type = AUDIO, a_url = fileUrl,
                         a_filename = None, a_mimeType = vo_mime_type voice,
                         a_size = vo_file_size voice\<rparr>]\<rparr>), fx)
      | None \<Rightarrow>
      (case payload tm_document ctx of
        Some doc \<Rightarrow>
          let (fileUrl, fx) = getFileUrl env s (do_file_id doc)
          in (Inr (base\<lparr>m_type := DOCUMENT,
                     m_content := or_else (payload tm_caption ctx) '''',
                     m_attachments :=
                       [\<lparr>a_id = do_file_id doc, a_type = DOCUMENT, a_url = fileUrl,
                         a_filename = do_file_name doc, a_mimeType = do_mime_type doc,
                         a_size = do_file_size doc\<rparr>]\<rparr>), fx)
      | None \<Rightarrow>
      (case payload tm_sticker ctx of
        Some sticker \<Rightarrow>
          let (fileUrl, fx) = getFileUrl env s (st_file_id sticker)
          in (Inr (base\<lparr>m_type := STICKER,
                     m_content := or_else (st_emoji sticker) '''',
                     m_attachments :=
                       [\<lparr>a_id = st_file_id sticker, a_type = STICKER, a_url = fileUrl,
                         a_filename = None, a_mimeType = None, a_size = None\<rparr>]\<rparr>), fx)
      | None \<Rightarrow>
      (case payload tm_location ctx of
        Some location \<Rightarrow>
          (Inr (base\<lparr>m_type := LOCATION,
                  m_content := ''Location: '' @ numberToString env (lo_latitude location)
                                 @ '', '' @ numberToString env (lo_longitude location),
                  m_metadata := (m_metadata base)
                    \<lparr>md_latitude := Some (lo_latitude location),
                     md_longitude := Some (lo_longitude location)\<rparr>\<rparr>), [])
      | None \<Rightarrow>
      (case payload tm_contact ctx of
        Some contact \<Rightarrow>
          (Inr (base\<lparr>m_type := CONTACT,
                  m_content := ''Contact: '' @ co_first_name contact @ '' ''
                                 @ or_else (co_last_name contact) '''',
                  m_metadata := (m_metadata base)
                    \<lparr>md_phoneNumber := Some (co_phone_number contact),
                     md_firstName := Some (co_first_name contact),
                     md_lastName := co_last_name contact,
                     md_userId := co_user_id contact\<rparr>\<rparr>), [])
      | None \<Rightarrow>
          (Inr (base\<lparr>m_type := TEXT, m_content := ''Unsupported message type''\<rparr>), []))))))))"

text \<open>\<open>parseUser\<close>: throws when the update has no sender.\<close>

definition parseUser :: "Env \<Rightarrow> Context \<Rightarrow> error + User" where
  "parseUser env ctx =
     (case ctx_from ctx of
        None \<Rightarrow> Inl (Error ''No user information available'')
      | Some telegramUser \<Rightarrow>
          Inr \<lparr>u_id = ''tg_'' @ int_toString env (tu_id telegramUser),
               u_platformId = int_toString env (tu_id telegramUser),
               u_platform = TELEGRAM,
               u_username = tu_username telegramUser,
               u_firstName = Some (tu_first_name telegramUser),
               u_lastName = tu_last_name telegramUser,
               u_role = USER,
               u_isBlocked = False,
               u_preferences =
                 \<lparr>language = or_else (tu_language_code telegramUser) ''en'',
                  timezone = ''UTC'', notifications = True, aiEnabled = True,
                  voiceEnabled = True\<rparr>,
               u_createdAt = clock env,
               u_updatedAt = clock env,
               u_lastSeen = clock env\<rparr>)"

text \<open>
  The refusal text of \<open>handleMessage\<close>, as the bytes of the source file's literal: seven
  bytes of a pictograph, then the sentence.
\<close>

definition refusal :: string where
  "refusal = [CHR 0xE2, CHR 0x80, CHR 0x9A, CHR 0xC3, CHR 0xB9, CHR 0xC3, CHR 0xA5]
               @ '' You are not authorized to use this bot.''"

text \<open>
  The access check of \<open>handleMessage\<close>: restrictions apply when \<open>allowedUsers\<close> is present
  and non-empty; the sender is refused when neither \<open>platformId\<close> nor
  \<open>username || ''\<close> is an element.
\<close>

definition refused :: "TelegramConfig \<Rightarrow> User \<Rightarrow> bool" where
  "refused cfg user =
     (case allowedUsers cfg of
        None \<Rightarrow> False
      | Some allowed \<Rightarrow>
          length allowed > 0
          \<and> u_platformId user \<notin> set allowed
          \<and> or_else (u_username user) '''' \<notin> set allowed)"

text \<open>
  \<open>handleMessage\<close>: the whole body sits in one \<open>try\<close>; whatever is thrown inside is logged
  and absorbed, so the handler returns only its effects. In the refusal branch the call of
  \<open>logger.security\<close> comes first and \<open>ctx.reply\<close>, which addresses the chat of the update,
  after it.
\<close>

definition handleMessage :: "Env \<Rightarrow> Adapter \<Rightarrow> Context \<Rightarrow> effect list" where
  "handleMessage env s ctx =
     (case parseMessage env s ctx of
        (Inl e, fx) \<Rightarrow> fx @ [LogError ''Error handling Telegram message'']
      | (Inr message, fx) \<Rightarrow>
          (case parseUser env ctx of
             Inl e \<Rightarrow> fx @ [LogError ''Error handling Telegram message'']
           | Inr user \<Rightarrow>
               if refused (config s) user then
                 (case logger_security ''Unauthorized access attempt'' of
                    Inl e \<Rightarrow> fx @ [LogError ''Error handling Telegram message'']
                  | Inr logged \<Rightarrow>
                      fx @ logged @ [Reply (map_option tc_id (ctx_chat ctx)) refusal]
                         @ (case ctxReply env ctx refusal of
                              Throws e \<Rightarrow> [LogError ''Error handling Telegram message'']
                            | Returns u \<Rightarrow> []))
               else
                 fx @ [Emit (MessageEvent message user TELEGRAM)]
                    @ (case listeners env of
                         Throws e \<Rightarrow> [LogError ''Error handling Telegram message'']
                       | Returns u \<Rightarrow> [])))"

section \<open>TelegramPlatform: lifecycle\<close>

definition truthy :: "string option \<Rightarrow> bool" where
  "truthy s = (case s of None \<Rightarrow> False | Some v \<Rightarrow> v \<noteq> [])"

text \<open>
  \<open>initialize\<close>: the guard throws before the \<open>try\<close>. Inside it, \<open>this.bot\<close> is assigned
  once the constructor has returned, the handlers are registered, and \<open>logger.platform\<close>
  is called last; whatever is thrown there is logged and replaced by a PlatformError.
\<close>

definition initialize :: "Env \<Rightarrow> Adapter \<Rightarrow> (error + unit) \<times> Adapter \<times> effect list" where
  "initialize env s =
     (if \<not> enabled (config s) \<or> \<not> truthy (botToken (config s)) then
        (Inl (PlatformError ''Telegram bot token is required'' TELEGRAM), s, [])
      else
        let token = or_else (botToken (config s)) '''' in
        (case newTelegraf env token of
          Throws e \<Rightarrow>
            (Inl (PlatformError ''Failed to initialize Telegram platform'' TELEGRAM), s,
             [LogError ''Failed to initialize Telegram platform''])
        | Returns u \<Rightarrow>
            (case registerHandlers env of
               Throws e \<Rightarrow>
                 (Inl (PlatformError ''Failed to initialize Telegram platform'' TELEGRAM),
                  s\<lparr>bot := Some (Telegraf token)\<rparr>,
                  [LogError ''Failed to initialize Telegram platform''])
             | Returns u \<Rightarrow>
                 (case logger_platform ''telegram'' ''Platform initialized successfully'' of
                    Inl e \<Rightarrow>
                      (Inl (PlatformError ''Failed to initialize Telegram platform'' TELEGRAM),
                       s\<lparr>bot := Some (Telegraf token)\<rparr>,
                       [LogError ''Failed to initialize Telegram platform''])
                  | Inr logged \<Rightarrow> (Inr (), s\<lparr>bot := Some (Telegraf token)\<rparr>, logged)))))"

text \<open>
  \<open>setBotCommands\<close>: whatever is thrown in its \<open>try\<close>, by the registration or by the
  logger call after it, is logged, never thrown.
\<close>

definition setBotCommands :: "Env \<Rightarrow> Adapter \<Rightarrow> effect list" where
  "setBotCommands env s =
     (case bot s of
        None \<Rightarrow> []
      | Some b \<Rightarrow>
          (case setMyCommands env of
             Throws e \<Rightarrow> [CallSetMyCommands, LogError ''Failed to set bot commands'']
           | Returns u \<Rightarrow>
               (case logger_platform ''telegram'' ''Bot commands set successfully'' of
                  Inl e \<Rightarrow> [CallSetMyCommands, LogError ''Failed to set bot commands'']
                | Inr logged \<Rightarrow> CallSetMyCommands # logged)))"

text \<open>
  \<open>start\<close>: launches with the webhook when a webhook URL is configured, with long polling
  otherwise (the webhook's port is read from the process environment and handed to the
  client together with the URL). In the \<open>try\<close> the order is: launch, \<open>logger.platform\<close>,
  \<open>this.isRunning = true\<close>, \<open>setBotCommands\<close>, \<open>logger.platform\<close>. Whatever is thrown on
  the way is logged and replaced by a PlatformError, with the fields as they are by then.
\<close>

definition start :: "Env \<Rightarrow> Adapter \<Rightarrow> (error + unit) \<times> Adapter \<times> effect list" where
  "start env s =
     (case bot s of
        None \<Rightarrow> (Inl (PlatformError ''Bot not initialized'' TELEGRAM), s, [])
      | Some b \<Rightarrow>
          let hook = (if truthy (webhookUrl (config s)) then webhookUrl (config s) else None) in
          (case launch env hook of
            Throws e \<Rightarrow>
              (Inl (PlatformError ''Failed to start Telegram bot'' TELEGRAM), s,
               [CallLaunch hook, LogError ''Failed to start Telegram bot''])
          | Returns u \<Rightarrow>
              (case logger_platform ''telegram''
                      (case hook of
                         Some url \<Rightarrow> ''Bot started with webhook: '' @ url
                       | None \<Rightarrow> ''Bot started with long polling'') of
                 Inl e \<Rightarrow>
                   (Inl (PlatformError ''Failed to start Telegram bot'' TELEGRAM), s,
                    [CallLaunch hook, LogError ''Failed to start Telegram bot''])
               | Inr logged \<Rightarrow>
                   (case logger_platform ''telegram''
                           ''Bot is running and ready to receive messages'' of
                      Inl e \<Rightarrow>
                        (Inl (PlatformError ''Failed to start Telegram bot'' TELEGRAM),
                         s\<lparr>isRunning := True\<rparr>,
                         CallLaunch hook # logged @ setBotCommands env (s\<lparr>isRunning := True\<rparr>)
                           @ [LogError ''Failed to start Telegram bot''])
                    | Inr ready \<Rightarrow>
                        (Inr (), s\<lparr>isRunning := True\<rparr>,
                         CallLaunch hook # logged @ setBotCommands env (s\<lparr>isRunning := True\<rparr>)
                           @ ready)))))"

text \<open>
  \<open>stop\<close>: inside the \<open>try\<close>, \<open>isRunning\<close> is cleared after \<open>bot.stop()\<close> has returned and
  before \<open>logger.platform\<close> is called; the \<open>catch\<close> logs and nothing is thrown. When
  \<open>bot.stop()\<close> itself throws, the flag stays as it was.
\<close>

definition stop :: "Env \<Rightarrow> Adapter \<Rightarrow> Adapter \<times> effect list" where
  "stop env s =
     (case bot s of
        None \<Rightarrow> (s, [])
      | Some b \<Rightarrow>
          if isRunning s then
            (case botStop env of
               Throws e \<Rightarrow> (s, [CallStop, LogError ''Error stopping Telegram bot''])
             | Returns u \<Rightarrow>
                 (case logger_platform ''telegram'' ''Bot stopped successfully'' of
                    Inl e \<Rightarrow>
                      (s\<lparr>isRunning := False\<rparr>,
                       [CallStop, LogError ''Error stopping Telegram bot''])
                  | Inr logged \<Rightarrow> (s\<lparr>isRunning := False\<rparr>, CallStop # logged)))
          else (s, []))"

definition isActive :: "Adapter \<Rightarrow> bool" where
  "isActive s = isRunning s"

section \<open>TelegramPlatform: outbound gateway\<close>

text \<open>
  The option bag of \<open>sendMessage\<close> is \<open>{parse_mode, disable_web_page_preview, ...options}\<close>:
  a key of the caller's options replaces the default under that key, in the default's
  place, and a new key is added at the end.
\<close>

fun assign :: "(string \<times> string) list \<Rightarrow> string \<Rightarrow> string \<Rightarrow> (string \<times> string) list" where
  "assign [] k v = [(k, v)]"
| "assign ((k', v') # kvs) k v =
     (if k' = k then (k, v) # kvs else (k', v') # assign kvs k v)"

fun spread :: "(string \<times> string) list \<Rightarrow> (string \<times> string) list \<Rightarrow> (string \<times> string) list" where
  "spread object [] = object"
| "spread object ((k, v) # kvs) = spread (assign object k v) kvs"

definition sendOptions :: "(string \<times> string) list option \<Rightarrow> (string \<times> string) list" where
  "sendOptions options =
     spread [(''parse_mode'', ''Markdown''), (''disable_web_page_preview'', ''true'')]
       (case options of None \<Rightarrow> [] | Some kvs \<Rightarrow> kvs)"

definition sendMessage ::
  "Env \<Rightarrow> Adapter \<Rightarrow> string \<Rightarrow> string \<Rightarrow> (string \<times> string) list option
     \<Rightarrow> (error + unit) \<times> effect list" where
  "sendMessage env s chatId content options =
     (case bot s of
        None \<Rightarrow> (Inl (PlatformError ''Bot not initialized'' TELEGRAM), [])
      | Some b \<Rightarrow>
          (case tgSendMessage env chatId content (sendOptions options) of
             Throws e \<Rightarrow>
               (Inl (NativeError e),
                [CallSendMessage chatId content (sendOptions options),
                 LogError ''Failed to send Telegram message''])
           | Returns u \<Rightarrow>
               (Inr (), [CallSendMessage chatId content (sendOptions options)])))"

definition sendPhoto ::
  "Env \<Rightarrow> Adapter \<Rightarrow> string \<Rightarrow> string \<Rightarrow> string option \<Rightarrow> (error + unit) \<times> effect list" where
  "sendPhoto env s chatId photo caption =
     (case bot s of
        None \<Rightarrow> (Inl (PlatformError ''Bot not initialized'' TELEGRAM), [])
      | Some b \<Rightarrow>
          (case tgSendPhoto env chatId photo caption of
             Throws e \<Rightarrow>
               (Inl (NativeError e),
                [CallSendPhoto chatId photo caption, LogError ''Failed to send Telegram photo''])
           | Returns u \<Rightarrow> (Inr (), [CallSendPhoto chatId photo caption])))"

text \<open>\<open>sendTyping\<close>: returns at once without a client, and logs instead of throwing.\<close>

definition sendTyping :: "Env \<Rightarrow> Adapter \<Rightarrow> string \<Rightarrow> (error + unit) \<times> effect list" where
  "sendTyping env s chatId =
     (case bot s of
        None \<Rightarrow> (Inr (), [])
      | Some b \<Rightarrow>
          (case tgSendChatAction env chatId ''typing'' of
             Throws e \<Rightarrow>
               (Inr (), [CallSendChatAction chatId ''typing'',
                         LogError ''Failed to send typing action''])
           | Returns u \<Rightarrow> (Inr (), [CallSendChatAction chatId ''typing''])))"

section \<open>Observations on an effect trace\<close>

text \<open>
  The events handed to \<open>this.emit\<close>, the \<open>ctx.reply\<close> calls with the chat they address,
  and the attachments of a parse result (none when the parse threw).
\<close>

fun published :: "effect list \<Rightarrow> event list" where
  "published [] = []"
| "published (Emit ev # fx) = ev # published fx"
| "published (x # fx) = published fx"

fun replies :: "effect list \<Rightarrow> (int option \<times> string) list" where
  "replies [] = []"
| "replies (Reply chat body # fx) = (chat, body) # replies fx"
| "replies (x # fx) = replies fx"

definition attachmentsOf :: "(error + Message) \<times> effect list \<Rightarrow> Attachment list" where
  "attachmentsOf r = (case fst r of Inl e \<Rightarrow> [] | Inr msg \<Rightarrow> m_attachments msg)"

text \<open>
  The lifecycle states of the design, read off the two fields. \<open>Uninitialized\<close> is the
  state the constructor builds; being running is what \<open>isActive\<close> reports. The states an
  adapter can be in are those the lifecycle operations lead to from a constructed one; the
  handlers and the outbound operations leave the fields alone.
\<close>

definition Uninitialized :: "Adapter \<Rightarrow> bool" where
  "Uninitialized s = (bot s = None \<and> \<not> isRunning s)"

inductive reachable :: "Adapter \<Rightarrow> bool" where
  constructed: "reachable (constructor cfg)"
| initialized: "reachable s \<Longrightarrow> reachable (fst (snd (initialize env s)))"
| started: "reachable s \<Longrightarrow> reachable (fst (snd (start env s)))"
| stopped: "reachable s \<Longrightarrow> reachable (fst (stop env s))"

text \<open>The pixel count of a variant, to compare the resolutions a photo is offered in.\<close>

definition resolution :: "PhotoSize \<Rightarrow> nat" where
  "resolution p = ps_width p * ps_height p"

section \<open>Sample environments, configurations and updates\<close>

definition quiet :: Env where
  "quiet =
     \<lparr>clock = 1700000000000, numberToString = (\<lambda>r. ''0''),
      newTelegraf = (\<lambda>token. Returns ()), registerHandlers = Returns (),
      launch = (\<lambda>hook. Returns ()), botStop = Returns (), setMyCommands = Returns (),
      getFile = (\<lambda>fileId. Returns (Some (''photos/'' @ fileId))),
      tgSendMessage = (\<lambda>chatId content options. Returns ()),
      tgSendPhoto = (\<lambda>chatId photo caption. Returns ()),
      tgSendChatAction = (\<lambda>chatId action. Returns ()),
      ctxReply = (\<lambda>ctx body. Returns ()),
      listeners = Returns ()\<rparr>"

definition cfg_open :: TelegramConfig where
  "cfg_open = \<lparr>enabled = True, botToken = Some ''T'', webhookUrl = None, allowedUsers = None\<rparr>"

definition fresh :: Adapter where
  "fresh = constructor cfg_open"

text \<open>
  \<open>ready\<close> is the adapter that \<open>initialize\<close> leaves behind: the client is assigned.
  \<open>flagged\<close> is that adapter with the running flag set by hand; no sequence of lifecycle
  calls produces it.
\<close>

definition ready :: Adapter where
  "ready = \<lparr>bot = Some (Telegraf ''T''), config = cfg_open, isRunning = False\<rparr>"

definition flagged :: Adapter where
  "flagged = \<lparr>bot = Some (Telegraf ''T''), config = cfg_open, isRunning = True\<rparr>"

definition sender42 :: TgUser where
  "sender42 =
     \<lparr>tu_id = 42, tu_username = None, tu_first_name = ''Ann'', tu_last_name = None,
      tu_language_code = None\<rparr>"

definition chat7 :: TgChat where
  "chat7 = \<lparr>tc_id = 7, tc_type = ''private''\<rparr>"

definition blank :: TgMessage where
  "blank =
     \<lparr>tm_message_id = 5, tm_text = None, tm_photo = None, tm_caption = None,
      tm_voice = None, tm_document = None, tm_sticker = None, tm_location = None,
      tm_contact = None\<rparr>"

definition update :: "TgMessage \<Rightarrow> Context" where
  "update m = \<lparr>ctx_message = Some m, ctx_from = Some sender42, ctx_chat = Some chat7\<rparr>"

definition hi :: Context where
  "hi = update (blank\<lparr>tm_text := Some ''hi''\<rparr>)"

definition large :: PhotoSize where
  "large = \<lparr>ps_file_id = ''large'', ps_width = 1280, ps_height = 960, ps_file_size = Some 90000\<rparr>"

definition thumb :: PhotoSize where
  "thumb = \<lparr>ps_file_id = ''thumb'', ps_width = 90, ps_height = 67, ps_file_size = Some 1200\<rparr>"

definition picture :: "PhotoSize list \<Rightarrow> Context" where
  "picture variants = update (blank\<lparr>tm_photo := Some variants\<rparr>)"

text \<open>
  Collaborators that fail: the file lookup, the client's constructor, the client's stop, the
  client's send.
\<close>

definition rejecting :: Env where
  "rejecting = quiet\<lparr>tgSendMessage := (\<lambda>chatId content options. Throws ''403 Forbidden'')\<rparr>"

definition offline :: Env where
  "offline = quiet\<lparr>getFile := (\<lambda>fileId. Throws ''gone'')\<rparr>"

definition unplugged :: Env where
  "unplugged = quiet\<lparr>newTelegraf := (\<lambda>token. Throws ''bad token'')\<rparr>"

definition stuck :: Env where
  "stuck = quiet\<lparr>botStop := Throws ''Bot is not running!''\<rparr>"

text \<open>Initialised adapters with an allow-list.\<close>

definition guarded :: Adapter where
  "guarded = ready\<lparr>config := cfg_open\<lparr>allowedUsers := Some [''99'']\<rparr>\<rparr>"

definition lax :: Adapter where
  "lax = ready\<lparr>config := cfg_open\<lparr>allowedUsers := Some [''99'', '''']\<rparr>\<rparr>"

section \<open>Auxiliary facts\<close>

lemmas samples = quiet_def cfg_open_def fresh_def ready_def flagged_def sender42_def chat7_def
  blank_def update_def hi_def large_def thumb_def picture_def constructor_def offline_def
  unplugged_def stuck_def rejecting_def guarded_def lax_def

lemmas evals = parseMessage_def baseMessage_def payload_def getFileUrl_def parseUser_def
  handleMessage_def refused_def or_else_def interpolate_def int_toString_def nat_toString.simps
  refusal_def logger_security_def logger_platform_def Let_def

lemma published_append [simp]: "published (xs @ ys) = published xs @ published ys"
  by (induction xs rule: published.induct) simp_all

lemma replies_append [simp]: "replies (xs @ ys) = replies xs @ replies ys"
  by (induction xs rule: replies.induct) simp_all

lemma getFileUrl_silent [simp]:
  "published (snd (getFileUrl env s f)) = []" "replies (snd (getFileUrl env s f)) = []"
  by (simp_all add: getFileUrl_def split: option.split outcome.split)

lemma parseMessage_silent:
  "published (snd (parseMessage env s ctx)) = [] \<and> replies (snd (parseMessage env s ctx)) = []"
  by (simp add: parseMessage_def Let_def case_prod_beta split: option.split)

lemma parseMessage_text:
  "payload tm_text ctx = Some t \<Longrightarrow>
   parseMessage env s ctx = (Inr ((baseMessage env ctx)\<lparr>m_type := TEXT, m_content := t\<rparr>), [])"
  by (simp add: parseMessage_def)

lemma parseMessage_photo:
  "payload tm_text ctx = None \<Longrightarrow> payload tm_photo ctx = Some photos \<Longrightarrow> photos \<noteq> [] \<Longrightarrow>
   parseMessage env s ctx =
     (Inr ((baseMessage env ctx)
        \<lparr>m_type := IMAGE, m_content := or_else (payload tm_caption ctx) '''',
         m_attachments :=
           [\<lparr>a_id = ps_file_id (last photos), a_type = IMAGE,
             a_url = fst (getFileUrl env s (ps_file_id (last photos))),
             a_filename = None, a_mimeType = None, a_size = ps_file_size (last photos)\<rparr>]\<rparr>),
      snd (getFileUrl env s (ps_file_id (last photos))))"
  by (simp add: parseMessage_def last_conv_nth Let_def case_prod_beta)

lemma parseMessage_fallback:
  "payload tm_text ctx = None \<Longrightarrow> payload tm_photo ctx = None \<Longrightarrow>
   payload tm_voice ctx = None \<Longrightarrow> payload tm_document ctx = None \<Longrightarrow>
   payload tm_sticker ctx = None \<Longrightarrow> payload tm_location ctx = None \<Longrightarrow>
   payload tm_contact ctx = None \<Longrightarrow>
   parseMessage env s ctx =
     (Inr ((baseMessage env ctx)\<lparr>m_type := TEXT, m_content := ''Unsupported message type''\<rparr>), [])"
  by (simp add: parseMessage_def)

text \<open>The parse throws on exactly one shape of update: a photo key holding no variant.\<close>

lemma parseMessage_throws_iff:
  "isl (fst (parseMessage env s ctx))
     \<longleftrightarrow> payload tm_text ctx = None \<and> payload tm_photo ctx = Some []"
  by (simp add: parseMessage_def Let_def split: option.split prod.split)

text \<open>The sender's record does not depend on the file lookup.\<close>

lemma parseUser_lookup [simp]: "parseUser (env\<lparr>getFile := g\<rparr>) ctx = parseUser env ctx"
  by (simp add: parseUser_def int_toString_def split: option.split)

text \<open>
  For a picture with at least one variant, whether an event is published is decided by the
  sender alone.
\<close>

lemma picture_unpublished_iff:
  assumes "payload tm_text ctx = None" and "payload tm_photo ctx = Some photos"
    and "photos \<noteq> []"
  shows "published (handleMessage env s ctx) = []
           \<longleftrightarrow> (case parseUser env ctx of Inl e \<Rightarrow> True | Inr user \<Rightarrow> refused (config s) user)"
  by (simp add: handleMessage_def parseMessage_photo [OF assms] logger_security_def
           split: sum.split outcome.split)

text \<open>A sender the access check refuses gets no reply, and nothing is published.\<close>

lemma refused_sender_hears_nothing:
  assumes "parseUser env ctx = Inr user" and "refused (config s) user"
  shows "published (handleMessage env s ctx) = [] \<and> replies (handleMessage env s ctx) = []"
proof -
  obtain res fx where pm: "parseMessage env s ctx = (res, fx)"
    by (cases "parseMessage env s ctx")
  have "published fx = []" "replies fx = []"
    using parseMessage_silent [of env s ctx] pm by simp_all
  then show ?thesis
    using pm assms by (cases res) (simp_all add: handleMessage_def logger_security_def)
qed

lemma last_is_greatest:
  assumes "sorted (map f xs)" and "x \<in> set xs"
  shows "(f x :: nat) \<le> f (last xs)"
proof -
  from assms(2) obtain i where i: "i < length xs" "xs ! i = x"
    by (auto simp: in_set_conv_nth)
  then have ne: "xs \<noteq> []" by auto
  have "map f xs ! i \<le> map f xs ! (length xs - 1)"
    using assms(1) i(1) by (intro sorted_nth_mono) auto
  with i ne show ?thesis
    by (simp add: last_conv_nth)
qed

text \<open>
  An object spread assigns key by key: the result maps a key to the last value the
  caller's options give it, and to the default's value when they give none.
\<close>

lemma map_of_assign: "map_of (assign kvs k v) = (map_of kvs)(k \<mapsto> v)"
  by (induction kvs) (auto simp add: fun_eq_iff)

lemma map_of_spread: "map_of (spread object kvs) = map_of object ++ map_of (rev kvs)"
  by (induction kvs arbitrary: object) (auto simp add: map_of_assign fun_eq_iff map_add_def
        split: option.split)

text \<open>
  No lifecycle call sets the running flag: \<open>start\<close> throws at its logger call before the
  assignment. An adapter is never running.
\<close>

lemma never_running: "reachable s \<Longrightarrow> \<not> isRunning s"
  by (induction rule: reachable.induct)
     (auto simp add: constructor_def initialize_def start_def stop_def logger_platform_def
           Let_def split: option.splits outcome.splits if_splits)

lemma reachable_samples: "reachable fresh" "reachable ready"
proof -
  show a: "reachable fresh"
    unfolding fresh_def by (rule reachable.constructed)
  have "fst (snd (initialize quiet fresh)) = ready"
    by (simp add: initialize_def truthy_def or_else_def logger_platform_def samples)
  with reachable.initialized [OF a, of quiet] show "reachable ready"
    by simp
qed


section \<open>Outbound gateway\<close>

text \<open>
  Claim C1, as stated, fails. The claim has every outbound operation raise a PlatformError
  whenever the adapter is not running. On a freshly constructed adapter \<open>sendTyping\<close>
  returns normally and does nothing, and on an adapter that has its client but is not
  running \<open>sendMessage\<close> forwards to the client and returns normally.
\<close>

theorem outbound_without_running_counterexample:
  "reachable fresh \<and> \<not> isActive fresh
   \<and> sendTyping quiet fresh ''7'' = (Inr (), [])
   \<and> reachable ready \<and> \<not> isActive ready
   \<and> sendMessage quiet ready ''7'' ''hi'' None
       = (Inr (), [CallSendMessage ''7'' ''hi''
                     [(''parse_mode'', ''Markdown''), (''disable_web_page_preview'', ''true'')]])"
proof -
  have a: "\<not> isActive fresh" "\<not> isActive ready"
    by (simp_all add: isActive_def fresh_def ready_def constructor_def)
  have b: "sendTyping quiet fresh ''7'' = (Inr (), [])"
    by (simp add: sendTyping_def fresh_def constructor_def)
  have c: "sendMessage quiet ready ''7'' ''hi'' None
       = (Inr (), [CallSendMessage ''7'' ''hi''
                     [(''parse_mode'', ''Markdown''), (''disable_web_page_preview'', ''true'')]])"
    by (simp add: sendMessage_def sendOptions_def ready_def quiet_def)
  from reachable_samples a b c show ?thesis
    by simp
qed

text \<open>
  Claim C1, amended. The guard of the outbound operations is the presence of the native
  client, not the running flag. Without a client, \<open>sendMessage\<close> and \<open>sendPhoto\<close> fail
  with the PlatformError "Bot not initialized" and \<open>sendTyping\<close> returns without doing
  anything. With a client, running or not, each operation forwards to the client:
  \<open>sendMessage\<close> and \<open>sendPhoto\<close> return when the client returns and, when the client
  throws, log and rethrow the client's own error; \<open>sendTyping\<close> returns in both cases and
  only logs the client's failure. The options \<open>sendMessage\<close> hands on are the defaults with
  the caller's options assigned over them.
\<close>

theorem outbound_guard_is_the_client:
  "(bot s = None \<longrightarrow>
      sendMessage env s chatId content options
        = (Inl (PlatformError ''Bot not initialized'' TELEGRAM), [])
      \<and> sendPhoto env s chatId photo caption
        = (Inl (PlatformError ''Bot not initialized'' TELEGRAM), [])
      \<and> sendTyping env s chatId = (Inr (), []))
   \<and> (bot s \<noteq> None \<longrightarrow>
        (tgSendMessage env chatId content (sendOptions options) = Returns ()
           \<longrightarrow> sendMessage env s chatId content options
                 = (Inr (), [CallSendMessage chatId content (sendOptions options)]))
      \<and> (\<forall>e. tgSendMessage env chatId content (sendOptions options) = Throws e
           \<longrightarrow> sendMessage env s chatId content options
                 = (Inl (NativeError e),
                    [CallSendMessage chatId content (sendOptions options),
                     LogError ''Failed to send Telegram message'']))
      \<and> (tgSendPhoto env chatId photo caption = Returns ()
           \<longrightarrow> sendPhoto env s chatId photo caption
                 = (Inr (), [CallSendPhoto chatId photo caption]))
      \<and> (\<forall>e. tgSendPhoto env chatId photo caption = Throws e
           \<longrightarrow> sendPhoto env s chatId photo caption
                 = (Inl (NativeError e),
                    [CallSendPhoto chatId photo caption,
                     LogError ''Failed to send Telegram photo'']))
      \<and> (tgSendChatAction env chatId ''typing'' = Returns ()
           \<longrightarrow> sendTyping env s chatId = (Inr (), [CallSendChatAction chatId ''typing'']))
      \<and> (\<forall>e. tgSendChatAction env chatId ''typing'' = Throws e
           \<longrightarrow> sendTyping env s chatId
                 = (Inr (), [CallSendChatAction chatId ''typing'',
                             LogError ''Failed to send typing action''])))
   \<and> map_of (sendOptions options)
       = map_of [(''parse_mode'', ''Markdown''), (''disable_web_page_preview'', ''true'')]
           ++ map_of (rev (case options of None \<Rightarrow> [] | Some kvs \<Rightarrow> kvs))"
  by (auto simp add: sendMessage_def sendPhoto_def sendTyping_def sendOptions_def map_of_spread)

text \<open>
  Witness for C1: the constructed adapter has no client and both sends fail with the
  PlatformError; the adapter with a client forwards, returns when the client returns and
  rethrows the client's error when it throws; a caller's parse mode replaces the default.
\<close>

theorem outbound_guard_is_the_client_witness:
  "bot fresh = None \<and> bot ready \<noteq> None
   \<and> sendMessage quiet fresh ''7'' ''hi'' None
       = (Inl (PlatformError ''Bot not initialized'' TELEGRAM), [])
   \<and> sendPhoto quiet fresh ''7'' ''cat.png'' None
       = (Inl (PlatformError ''Bot not initialized'' TELEGRAM), [])
   \<and> tgSendMessage quiet ''7'' ''hi'' (sendOptions None) = Returns ()
   \<and> sendMessage quiet ready ''7'' ''hi'' None
       = (Inr (), [CallSendMessage ''7'' ''hi'' (sendOptions None)])
   \<and> tgSendMessage rejecting ''7'' ''hi'' (sendOptions None) = Throws ''403 Forbidden''
   \<and> sendMessage rejecting ready ''7'' ''hi'' None
       = (Inl (NativeError ''403 Forbidden''),
          [CallSendMessage ''7'' ''hi'' (sendOptions None),
           LogError ''Failed to send Telegram message''])
   \<and> sendOptions (Some [(''parse_mode'', ''HTML'')])
       = [(''parse_mode'', ''HTML''), (''disable_web_page_preview'', ''true'')]"
proof -
  have a: "bot fresh = None" and b: "bot ready \<noteq> None"
    by (simp_all add: fresh_def constructor_def ready_def)
  have c: "tgSendMessage quiet ''7'' ''hi'' (sendOptions None) = Returns ()"
    by (simp add: quiet_def)
  have d: "tgSendMessage rejecting ''7'' ''hi'' (sendOptions None) = Throws ''403 Forbidden''"
    by (simp add: rejecting_def)
  have e: "sendOptions (Some [(''parse_mode'', ''HTML'')])
       = [(''parse_mode'', ''HTML''), (''disable_web_page_preview'', ''true'')]"
    by (simp add: sendOptions_def)
  from outbound_guard_is_the_client [of fresh quiet "''7''" "''hi''" None "''cat.png''" None]
    outbound_guard_is_the_client [of ready quiet "''7''" "''hi''" None "''cat.png''" None]
    outbound_guard_is_the_client [of ready rejecting "''7''" "''hi''" None "''cat.png''" None]
    a b c d e
  show ?thesis
    by simp
qed

section \<open>Image updates\<close>

text \<open>
  Claim C2. For every image update (a photo payload with at least one variant) whose file
  reference fails to resolve, because there is no client or the client's lookup throws,
  the parse still succeeds: the Message has type IMAGE and exactly one attachment, whose
  url is the empty string, and the failure is logged, not thrown. The failure does not
  stop the publication: the message event, carrying this Message, is published for every
  sender the access check lets pass, and whether an event is published is the same
  whatever the lookup answers.
\<close>

theorem unresolved_image_still_parsed:
  assumes "ctx_message ctx = Some m" and "tm_text m = None"
    and "tm_photo m = Some photos" and "photos \<noteq> []"
    and "bot s = None \<or> (\<exists>e. getFile env (ps_file_id (last photos)) = Throws e)"
  shows "\<exists>msg fx att. parseMessage env s ctx = (Inr msg, fx)
           \<and> m_type msg = IMAGE \<and> m_attachments msg = [att] \<and> a_url att = ''''
           \<and> LogError ''Failed to get file URL'' \<in> set fx
           \<and> (\<forall>user. parseUser env ctx = Inr user \<and> \<not> refused (config s) user
                 \<longrightarrow> published (handleMessage env s ctx) = [MessageEvent msg user TELEGRAM])
           \<and> (\<forall>g. (published (handleMessage (env\<lparr>getFile := g\<rparr>) s ctx) = [])
                   = (published (handleMessage env s ctx) = []))"
proof -
  have p: "payload tm_text ctx = None" "payload tm_photo ctx = Some photos"
    using assms by (simp_all add: payload_def)
  have u: "getFileUrl env s (ps_file_id (last photos))
             = ('''', [LogError ''Failed to get file URL''])
           \<or> getFileUrl env s (ps_file_id (last photos))
               = ('''', [CallGetFile (ps_file_id (last photos)),
                         LogError ''Failed to get file URL''])"
    using assms(5) by (auto simp add: getFileUrl_def split: option.split)
  have same: "\<forall>g. (published (handleMessage (env\<lparr>getFile := g\<rparr>) s ctx) = [])
                   = (published (handleMessage env s ctx) = [])"
    by (simp add: picture_unpublished_iff [OF p assms(4)])
  show ?thesis
    using u same
    by (auto simp add: parseMessage_photo [OF p assms(4)] handleMessage_def
             split: outcome.split)
qed

text \<open>
  Witness for C2: a two-variant picture, a lookup that throws, an adapter without
  allow-list; the event carries an IMAGE message whose only attachment has the empty url.
\<close>

theorem unresolved_image_still_parsed_witness:
  "ctx_message (picture [thumb, large]) = Some (blank\<lparr>tm_photo := Some [thumb, large]\<rparr>)
   \<and> tm_text (blank\<lparr>tm_photo := Some [thumb, large]\<rparr>) = None
   \<and> tm_photo (blank\<lparr>tm_photo := Some [thumb, large]\<rparr>) = Some [thumb, large]
   \<and> [thumb, large] \<noteq> []
   \<and> getFile offline (ps_file_id (last [thumb, large])) = Throws ''gone''
   \<and> \<not> refused (config ready) (projr (parseUser offline (picture [thumb, large])))
   \<and> (\<exists>msg. m_type msg = IMAGE \<and> map a_url (m_attachments msg) = ['''']
         \<and> published (handleMessage offline ready (picture [thumb, large]))
             = [MessageEvent msg (projr (parseUser offline (picture [thumb, large]))) TELEGRAM])"
proof -
  have a: "ctx_message (picture [thumb, large]) = Some (blank\<lparr>tm_photo := Some [thumb, large]\<rparr>)"
    by (simp add: picture_def update_def)
  have b: "tm_text (blank\<lparr>tm_photo := Some [thumb, large]\<rparr>) = None"
    by (simp add: blank_def)
  have c: "tm_photo (blank\<lparr>tm_photo := Some [thumb, large]\<rparr>) = Some [thumb, large]"
    by simp
  have d: "[thumb, large] \<noteq> []"
    by simp
  have e: "getFile offline (ps_file_id (last [thumb, large])) = Throws ''gone''"
    by (simp add: offline_def)
  then have e': "bot ready = None
      \<or> (\<exists>e. getFile offline (ps_file_id (last [thumb, large])) = Throws e)"
    by blast
  have f: "parseUser offline (picture [thumb, large])
             = Inr (projr (parseUser offline (picture [thumb, large])))"
    by (simp add: parseUser_def picture_def update_def)
  have g: "\<not> refused (config ready) (projr (parseUser offline (picture [thumb, large])))"
    by (simp add: refused_def ready_def cfg_open_def)
  from unresolved_image_still_parsed [OF a b c d e'] a b c d e f g show ?thesis
    by fastforce
qed

text \<open>
  Claim C3. For every image update offering its variants in the platform's order, ascending
  in resolution, the single attachment placed on the produced Message is built from the
  highest-resolution variant of the offered list (its file id, its size, the url resolved
  for its file id): no offered variant has a higher resolution than the one attached.
\<close>

theorem image_attachment_is_highest_variant:
  assumes "ctx_message ctx = Some m" and "tm_text m = None"
    and "tm_photo m = Some photos" and "photos \<noteq> []"
    and "sorted (map resolution photos)"
  shows "\<exists>msg fx best. parseMessage env s ctx = (Inr msg, fx)
           \<and> best \<in> set photos
           \<and> (\<forall>p \<in> set photos. resolution p \<le> resolution best)
           \<and> m_attachments msg
               = [\<lparr>a_id = ps_file_id best, a_type = IMAGE,
                   a_url = fst (getFileUrl env s (ps_file_id best)),
                   a_filename = None, a_mimeType = None, a_size = ps_file_size best\<rparr>]"
proof -
  have p: "payload tm_text ctx = None" "payload tm_photo ctx = Some photos"
    using assms by (simp_all add: payload_def)
  have "last photos \<in> set photos"
    using assms(4) by simp
  moreover have "\<forall>p \<in> set photos. resolution p \<le> resolution (last photos)"
    using assms(5) by (simp add: last_is_greatest)
  ultimately show ?thesis
    by (auto simp add: parseMessage_photo [OF p assms(4)])
qed

text \<open>
  Witness for C3: thumbnail first, large variant last; the attachment is the large one.
\<close>

theorem image_attachment_is_highest_variant_witness:
  "ctx_message (picture [thumb, large]) = Some (blank\<lparr>tm_photo := Some [thumb, large]\<rparr>)
   \<and> tm_text (blank\<lparr>tm_photo := Some [thumb, large]\<rparr>) = None
   \<and> tm_photo (blank\<lparr>tm_photo := Some [thumb, large]\<rparr>) = Some [thumb, large]
   \<and> [thumb, large] \<noteq> []
   \<and> sorted (map resolution [thumb, large])
   \<and> resolution thumb < resolution large
   \<and> map a_id (attachmentsOf (parseMessage quiet ready (picture [thumb, large]))) = [''large'']"
proof -
  have a: "ctx_message (picture [thumb, large]) = Some (blank\<lparr>tm_photo := Some [thumb, large]\<rparr>)"
    by (simp add: picture_def update_def)
  have b: "tm_text (blank\<lparr>tm_photo := Some [thumb, large]\<rparr>) = None"
    by (simp add: blank_def)
  have c: "tm_photo (blank\<lparr>tm_photo := Some [thumb, large]\<rparr>) = Some [thumb, large]"
    by simp
  have d: "[thumb, large] \<noteq> []"
    by simp
  have e: "sorted (map resolution [thumb, large])"
    by (simp add: resolution_def thumb_def large_def)
  have f: "resolution thumb < resolution large"
    by (simp add: resolution_def thumb_def large_def)
  from image_attachment_is_highest_variant [OF a b c d e, of quiet ready]
  obtain msg fx best where r: "parseMessage quiet ready (picture [thumb, large]) = (Inr msg, fx)"
    "best \<in> set [thumb, large]" "\<forall>p \<in> set [thumb, large]. resolution p \<le> resolution best"
    "m_attachments msg
       = [\<lparr>a_id = ps_file_id best, a_type = IMAGE,
           a_url = fst (getFileUrl quiet ready (ps_file_id best)),
           a_filename = None, a_mimeType = None, a_size = ps_file_size best\<rparr>]"
    by blast
  from r(2,3) f have "best = large"
    by auto
  with r(1,4) have "map a_id (attachmentsOf (parseMessage quiet ready (picture [thumb, large])))
      = [''large'']"
    by (simp add: attachmentsOf_def large_def)
  with a b c d e f show ?thesis
    by simp
qed


section \<open>Access control\<close>

text \<open>
  Claim C4 against the code. The claim has a sender who is absent from a configured,
  non-empty allow-list receive exactly one refusal reply. With the allow-list ["99"], the
  text "hi" from sender 42 in chat 7 reaches the refusal branch; there the call of
  \<open>logger.security\<close> throws before \<open>ctx.reply\<close> is reached, the handler's \<open>catch\<close> logs
  the error, and no reply is sent. No event is published, as the claim says.
\<close>

theorem unlisted_sender_gets_no_refusal:
  "allowedUsers (config guarded) = Some [''99'']
   \<and> u_platformId (projr (parseUser quiet hi)) = ''42''
   \<and> u_username (projr (parseUser quiet hi)) = None
   \<and> refused (config guarded) (projr (parseUser quiet hi))
   \<and> published (handleMessage quiet guarded hi) = []
   \<and> replies (handleMessage quiet guarded hi) = []
   \<and> handleMessage quiet guarded hi = [LogError ''Error handling Telegram message'']"
  by (simp add: evals samples)


section \<open>Lifecycle\<close>

text \<open>
  Claim C5. \<open>initialize\<close> fails with a PlatformError whenever the platform is not enabled,
  the bot token is missing (absent or empty), or the construction of the native client
  throws; and on each of these failures the adapter's state is what it was before the call.
\<close>

theorem initialize_failure_keeps_state:
  assumes "\<not> enabled (config s) \<or> botToken (config s) = None \<or> botToken (config s) = Some ''''
           \<or> (\<exists>token e. botToken (config s) = Some token \<and> newTelegraf env token = Throws e)"
  shows "\<exists>msg fx. initialize env s = (Inl (PlatformError msg TELEGRAM), s, fx)"
  using assms
  by (auto simp add: initialize_def truthy_def or_else_def split: option.split outcome.split)

text \<open>
  Witness for C5: enabled, token "T", a constructor that throws; the adapter was
  Uninitialized and is returned as it was.
\<close>

theorem initialize_failure_keeps_state_witness:
  "enabled (config fresh) \<and> botToken (config fresh) = Some ''T''
   \<and> newTelegraf unplugged ''T'' = Throws ''bad token''
   \<and> Uninitialized fresh
   \<and> (\<exists>msg fx. initialize unplugged fresh = (Inl (PlatformError msg TELEGRAM), fresh, fx))"
proof -
  have t: "enabled (config fresh)" "botToken (config fresh) = Some ''T''"
    "newTelegraf unplugged ''T'' = Throws ''bad token''"
    by (simp_all add: fresh_def constructor_def cfg_open_def unplugged_def quiet_def)
  then have a: "\<not> enabled (config fresh) \<or> botToken (config fresh) = None
      \<or> botToken (config fresh) = Some ''''
      \<or> (\<exists>token e. botToken (config fresh) = Some token
            \<and> newTelegraf unplugged token = Throws e)"
    by blast
  have b: "Uninitialized fresh"
    by (simp add: Uninitialized_def fresh_def constructor_def)
  from initialize_failure_keeps_state [OF a] t b show ?thesis
    by blast
qed

section \<open>Parsing\<close>

text \<open>
  Claim C6. The Message produced by parsing an update carries one type, and every entry of
  its attachment list has that same type. The media types (image, audio, document, sticker)
  come with exactly one attachment, every other type with none; the parse never produces
  the video type.
\<close>

theorem attachments_match_type:
  assumes "parseMessage env s ctx = (Inr msg, fx)"
  shows "(\<forall>a \<in> set (m_attachments msg). a_type a = m_type msg)
         \<and> length (m_attachments msg)
             = (if m_type msg \<in> {IMAGE, AUDIO, DOCUMENT, STICKER} then 1 else 0)
         \<and> m_type msg \<noteq> VIDEO"
  using assms
  by (auto simp add: parseMessage_def Let_def baseMessage_def
           split: option.splits prod.splits if_splits)

text \<open>
  Witness for C6: a picture; the Message is an IMAGE and its one attachment is an IMAGE.
\<close>

theorem attachments_match_type_witness:
  "parseMessage quiet ready (picture [thumb, large])
     = (Inr (projr (fst (parseMessage quiet ready (picture [thumb, large])))),
        [CallGetFile ''large''])
   \<and> m_type (projr (fst (parseMessage quiet ready (picture [thumb, large])))) = IMAGE
   \<and> length (m_attachments (projr (fst (parseMessage quiet ready (picture [thumb, large])))))
       = 1
   \<and> a_type (hd (m_attachments (projr (fst (parseMessage quiet ready (picture [thumb, large]))))))
       = IMAGE"
proof -
  let ?msg = "projr (fst (parseMessage quiet ready (picture [thumb, large])))"
  have a: "parseMessage quiet ready (picture [thumb, large]) = (Inr ?msg, [CallGetFile ''large''])"
    by (simp add: evals samples)
  have c: "m_type ?msg = IMAGE"
    by (simp add: evals samples)
  from attachments_match_type [OF a] c
  have all: "\<forall>a \<in> set (m_attachments ?msg). a_type a = IMAGE"
    and len: "length (m_attachments ?msg) = 1"
    by simp_all
  from len have "hd (m_attachments ?msg) \<in> set (m_attachments ?msg)"
    by (cases "m_attachments ?msg") simp_all
  with all have "a_type (hd (m_attachments ?msg)) = IMAGE"
    by blast
  with a c len show ?thesis
    by simp
qed

text \<open>
  Claim C7. For every update that carries none of the known payloads (text, photo, voice,
  document, sticker, location, contact), the parse does not throw and produces a TEXT
  Message whose content is the fixed marker "Unsupported message type".
\<close>

theorem unknown_kind_is_unsupported_TEXT:
  assumes "payload tm_text ctx = None" and "payload tm_photo ctx = None"
    and "payload tm_voice ctx = None" and "payload tm_document ctx = None"
    and "payload tm_sticker ctx = None" and "payload tm_location ctx = None"
    and "payload tm_contact ctx = None"
  shows "\<exists>msg. parseMessage env s ctx = (Inr msg, [])
           \<and> m_type msg = TEXT \<and> m_content msg = ''Unsupported message type''"
  using assms by (simp add: parseMessage_fallback)

text \<open>Witness for C7: a message with an id and no payload at all.\<close>

theorem unknown_kind_is_unsupported_TEXT_witness:
  "payload tm_text (update blank) = None \<and> payload tm_photo (update blank) = None
   \<and> payload tm_voice (update blank) = None \<and> payload tm_document (update blank) = None
   \<and> payload tm_sticker (update blank) = None \<and> payload tm_location (update blank) = None
   \<and> payload tm_contact (update blank) = None
   \<and> (\<exists>msg. parseMessage quiet fresh (update blank) = (Inr msg, [])
           \<and> m_type msg = TEXT \<and> m_content msg = ''Unsupported message type'')"
proof -
  have none: "payload tm_text (update blank) = None" "payload tm_photo (update blank) = None"
    "payload tm_voice (update blank) = None" "payload tm_document (update blank) = None"
    "payload tm_sticker (update blank) = None" "payload tm_location (update blank) = None"
    "payload tm_contact (update blank) = None"
    by (simp_all add: payload_def update_def blank_def)
  from unknown_kind_is_unsupported_TEXT [OF none, of quiet fresh] none show ?thesis
    by blast
qed

text \<open>
  Claim C8. For every update carrying a text payload, the produced Message has type TEXT
  and its content is the update's text, unchanged.
\<close>

theorem text_update_is_TEXT:
  assumes "ctx_message ctx = Some m" and "tm_text m = Some t"
  shows "\<exists>msg. parseMessage env s ctx = (Inr msg, [])
           \<and> m_type msg = TEXT \<and> m_content msg = t"
  using assms by (simp add: parseMessage_text payload_def)

text \<open>Witness for C8: the text "hi".\<close>

theorem text_update_is_TEXT_witness:
  "ctx_message hi = Some (blank\<lparr>tm_text := Some ''hi''\<rparr>)
   \<and> tm_text (blank\<lparr>tm_text := Some ''hi''\<rparr>) = Some ''hi''
   \<and> (\<exists>msg. parseMessage quiet fresh hi = (Inr msg, [])
         \<and> m_type msg = TEXT \<and> m_content msg = ''hi'')"
proof -
  have a: "ctx_message hi = Some (blank\<lparr>tm_text := Some ''hi''\<rparr>)"
    by (simp add: hi_def update_def)
  have b: "tm_text (blank\<lparr>tm_text := Some ''hi''\<rparr>) = Some ''hi''"
    by simp
  from text_update_is_TEXT [OF a b, of quiet fresh] a b show ?thesis
    by blast
qed


section \<open>Stopping\<close>

text \<open>
  Claim C9. \<open>stop\<close> is idempotent. On an adapter that is not running, \<open>stop\<close> is a no-op
  that leaves the state unchanged. On every adapter the lifecycle calls can produce, a
  running one becomes stopped, and a second \<open>stop\<close> changes nothing and does nothing, so
  that stopping twice equals stopping once; no such adapter is running, since \<open>start\<close>
  does not get as far as setting the flag, and \<open>stop\<close> is the no-op there. The transition
  itself, on a state whose flag is set and whose client stops when asked: the flag is
  cleared, and a further \<open>stop\<close> is a no-op.
\<close>

theorem stop_is_idempotent:
  "(\<not> isActive s \<longrightarrow> stop env s = (s, []))
   \<and> (reachable s \<longrightarrow>
        (isActive s \<longrightarrow> \<not> isActive (fst (stop env s)))
        \<and> stop env s = (s, [])
        \<and> stop env' (fst (stop env s)) = (fst (stop env s), []))
   \<and> (isActive s \<and> bot s \<noteq> None \<and> botStop env = Returns ()
        \<longrightarrow> fst (stop env s) = s\<lparr>isRunning := False\<rparr>
            \<and> stop env' (fst (stop env s)) = (fst (stop env s), []))"
proof -
  have idle: "\<not> isRunning t \<Longrightarrow> stop e t = (t, [])" for e t
    by (simp add: stop_def split: option.split)
  have "reachable s \<Longrightarrow> \<not> isRunning s"
    by (rule never_running)
  moreover have "isRunning s \<Longrightarrow> bot s \<noteq> None \<Longrightarrow> botStop env = Returns ()
      \<Longrightarrow> fst (stop env s) = s\<lparr>isRunning := False\<rparr>"
    by (auto simp add: stop_def logger_platform_def split: option.split)
  ultimately show ?thesis
    by (auto simp add: isActive_def idle)
qed

text \<open>
  Witness for C9: the adapter with its client, not running, is what the lifecycle calls
  produce; \<open>stop\<close> leaves it alone, twice. With the flag set by hand and a client that
  stops, \<open>stop\<close> yields that same adapter, and a second \<open>stop\<close> does nothing.
\<close>

theorem stop_is_idempotent_witness:
  "reachable ready \<and> \<not> isActive ready
   \<and> stop quiet ready = (ready, [])
   \<and> stop stuck (fst (stop quiet ready)) = (ready, [])
   \<and> isActive flagged \<and> bot flagged \<noteq> None \<and> botStop quiet = Returns ()
   \<and> fst (stop quiet flagged) = ready
   \<and> stop stuck (fst (stop quiet flagged)) = (ready, [])"
proof -
  have a: "\<not> isActive ready" and b: "isActive flagged" and c: "bot flagged \<noteq> None"
    and d: "botStop quiet = Returns ()"
    by (simp_all add: isActive_def flagged_def ready_def quiet_def)
  have e: "flagged\<lparr>isRunning := False\<rparr> = ready"
    by (simp add: flagged_def ready_def)
  have f: "stop quiet ready = (ready, [])"
    using stop_is_idempotent [of ready quiet stuck] a by blast
  have g: "stop stuck (fst (stop quiet ready)) = (fst (stop quiet ready), [])"
    using stop_is_idempotent [of ready quiet stuck] reachable_samples(2) by blast
  have h: "fst (stop quiet flagged) = flagged\<lparr>isRunning := False\<rparr>"
    "stop stuck (fst (stop quiet flagged)) = (fst (stop quiet flagged), [])"
    using stop_is_idempotent [of flagged quiet stuck] b c d by blast+
  from reachable_samples(2) a b c d e f g h show ?thesis
    by simp
qed


section \<open>The empty allow-list entry\<close>

text \<open>
  Claim C10. If the configured allow-list contains the empty string, then every sender
  without a username passes the access check, whether or not the sender's native id is
  listed: the parsed Message is published as a message event and no refusal is sent.
\<close>

theorem empty_entry_admits_nameless:
  assumes "allowedUsers (config s) = Some allowed" and "'''' \<in> set allowed"
    and "ctx_from ctx = Some sender" and "tu_username sender = None"
    and "parseMessage env s ctx = (Inr msg, fx)"
  shows "\<exists>user. parseUser env ctx = Inr user \<and> \<not> refused (config s) user
           \<and> published (handleMessage env s ctx) = [MessageEvent msg user TELEGRAM]
           \<and> replies (handleMessage env s ctx) = []"
proof -
  obtain user where user: "parseUser env ctx = Inr user" "u_username user = None"
    using assms(3,4) by (simp add: parseUser_def)
  have r: "\<not> refused (config s) user"
    using assms(1,2) user(2) by (simp add: refused_def or_else_def)
  have quiet_fx: "published fx = []" "replies fx = []"
    using parseMessage_silent [of env s ctx] assms(5) by simp_all
  show ?thesis
    using user(1) r quiet_fx assms(5)
    by (simp add: handleMessage_def split: outcome.split)
qed

text \<open>
  Witness for C10: allow-list ["99", ""], sender 42 without username; the id "42" is not
  listed and the message is published.
\<close>

theorem empty_entry_admits_nameless_witness:
  "allowedUsers (config lax) = Some [''99'', ''''] \<and> '''' \<in> set [''99'', '''']
   \<and> ctx_from hi = Some sender42 \<and> tu_username sender42 = None
   \<and> u_platformId (projr (parseUser quiet hi)) \<notin> set [''99'', '''']
   \<and> published (handleMessage quiet lax hi)
       = [MessageEvent (projr (fst (parseMessage quiet lax hi))) (projr (parseUser quiet hi))
            TELEGRAM]"
proof -
  have a: "allowedUsers (config lax) = Some [''99'', '''']"
    by (simp add: lax_def)
  have b: "'''' \<in> set [''99'', '''']"
    by simp
  have c: "ctx_from hi = Some sender42"
    by (simp add: hi_def update_def)
  have d: "tu_username sender42 = None"
    by (simp add: sender42_def)
  have e: "parseMessage quiet lax hi = (Inr (projr (fst (parseMessage quiet lax hi))), [])"
    by (simp add: parseMessage_def payload_def hi_def update_def)
  have f: "u_platformId (projr (parseUser quiet hi)) \<notin> set [''99'', '''']"
    by (simp add: parseUser_def hi_def update_def sender42_def int_toString_def
        nat_toString.simps)
  from empty_entry_admits_nameless [OF a b c d e] a b c d f show ?thesis
    by auto
qed


end
